theory Spec2Isabelle
  imports Main "HOL-Library.Word"
begin

section \<open>The Titan runtime core (runtime/tcore.c) over a Lua host\<close>

text \<open>
  The runtime core is a handful of C functions that generated code calls around every
  dynamic operation. Each one either returns to its caller or raises a Lua error through
  \<^verbatim>\<open>luaL_error\<close> and never returns. The embedding below follows the C text function by
  function. Everything the functions take from the Lua headers (tag constants, tag
  macros, the table operations of ltable.c) is not part of runtime/: the constants and
  macros are fields of a \<open>host\<close> record that every function receives where the C
  function receives \<^verbatim>\<open>lua_State *L\<close>, and the three host functions
  (\<^verbatim>\<open>luaL_error\<close>, \<^verbatim>\<open>luaH_titan_normalize_table\<close>, \<^verbatim>\<open>luaH_resizearray\<close>) are
  modelled from their description in the specification.
\<close>

subsection \<open>Values and tables\<close>

text \<open>
  \<^verbatim>\<open>TValue\<close>: a payload (the 64-bit \<^verbatim>\<open>Value\<close> union, kept as raw bits) and the raw
  tag (the fields \<^verbatim>\<open>value_\<close> and \<^verbatim>\<open>tt_\<close> of the C struct, here \<open>val\<close> and \<open>tt\<close>).
  \<^verbatim>\<open>rawtt(slot)\<close> reads the tag.
\<close>

record TValue =
  val :: "64 word"
  tt :: int

definition rawtt :: "TValue \<Rightarrow> int" where
  "rawtt slot = tt slot"

text \<open>
  \<^verbatim>\<open>Table\<close>: the array part and the hash part. The C code reads one size field,
  \<^verbatim>\<open>t->sizearray\<close> (an \<^verbatim>\<open>unsigned int\<close>, 32 bits on every platform Lua builds on), compares
  the index with it and doubles it; there is no second field for a capacity. The slots
  \<^verbatim>\<open>t->array[i]\<close> are a store from indices to values, meaningful below \<open>sizearray\<close>.
  The hash part is an association list; only its integer keys matter here, and key
  \<open>k\<close> stands for array index \<open>k\<close> (the array region is zero-based).
\<close>

record Table =
  sizearray :: "32 word"
  array :: "nat \<Rightarrow> TValue"
  node :: "(int \<times> TValue) list"

text \<open>
  What the C functions take from the Lua headers: the two numeric tags, the macros
  \<^verbatim>\<open>novariant\<close>, \<^verbatim>\<open>ttypename\<close> and \<^verbatim>\<open>isempty\<close>, and the value that \<^verbatim>\<open>setempty\<close> stores in a
  slot. They are parameters: every theorem below holds for every host.
\<close>

record host =
  LUA_TNUMINT :: int
  LUA_TNUMFLT :: int
  novariant :: "int \<Rightarrow> int"
  ttypename :: "int \<Rightarrow> string"
  isempty :: "TValue \<Rightarrow> bool"
  emptyslot :: TValue

subsection \<open>Raising an error\<close>

text \<open>
  A call either returns or raises an error message; \<^verbatim>\<open>TITAN_UNREACHABLE\<close> after each
  \<^verbatim>\<open>luaL_error\<close> says that control never passes the raise.
\<close>

datatype outcome = Returns | Raises string

datatype fmt_arg = ArgInt int | ArgStr string

definition digit_char :: "nat \<Rightarrow> char" where
  "digit_char d = ''0123456789'' ! d"

fun show_nat :: "nat \<Rightarrow> string" where
  "show_nat n = (if n < 10 then [digit_char n] else show_nat (n div 10) @ [digit_char (n mod 10)])"

declare show_nat.simps [simp del]

definition show_int :: "int \<Rightarrow> string" where
  "show_int i = (if i < 0 then CHR ''-'' # show_nat (nat (- i)) else show_nat (nat i))"

text \<open>
  Modelled from the spec: \<^verbatim>\<open>luaL_error\<close> (lauxlib.c) and the formatter behind it are
  not among the sources. The specification describes the host primitive as
  "raise-a-fatal-diagnostic-and-unwind, taking a formatted message" and writes the
  messages with \<open><N>\<close>, \<open><L>\<close>, \<open><C>\<close> for numbers and \<open><name>\<close>, \<open><T1>\<close>,
  \<open><T2>\<close> for strings. \<open>lua_pushvfstring\<close> substitutes the arguments in order:
  \<^verbatim>\<open>%d\<close> takes an \<^verbatim>\<open>int\<close> and writes it in decimal, \<^verbatim>\<open>%s\<close> takes a string and copies
  it, \<^verbatim>\<open>%%\<close> writes a percent sign; every other character is copied. A directive whose
  argument is missing or of the other kind is copied as it stands.
\<close>

fun lua_pushvfstring :: "string \<Rightarrow> fmt_arg list \<Rightarrow> string" where
  "lua_pushvfstring [] args = []"
| "lua_pushvfstring [c] args = [c]"
| "lua_pushvfstring (c # d # fmt) args =
     (if c = CHR ''%'' \<and> d = CHR ''%'' then CHR ''%'' # lua_pushvfstring fmt args
      else if c = CHR ''%'' \<and> d = CHR ''d'' then
        (case args of
           ArgInt n # rest \<Rightarrow> show_int n @ lua_pushvfstring fmt rest
         | _ \<Rightarrow> c # d # lua_pushvfstring fmt args)
      else if c = CHR ''%'' \<and> d = CHR ''s'' then
        (case args of
           ArgStr s # rest \<Rightarrow> s @ lua_pushvfstring fmt rest
         | _ \<Rightarrow> c # d # lua_pushvfstring fmt args)
      else c # lua_pushvfstring (d # fmt) args)"

definition luaL_error :: "string \<Rightarrow> fmt_arg list \<Rightarrow> outcome" where
  "luaL_error fmt args = Raises (lua_pushvfstring fmt args)"

subsection \<open>The tag namer and the error raisers\<close>

definition titan_tag_name :: "host \<Rightarrow> int \<Rightarrow> string" where
  "titan_tag_name h raw_tag =
     (if raw_tag = LUA_TNUMINT h then ''integer''
      else if raw_tag = LUA_TNUMFLT h then ''float''
      else ttypename h (novariant h raw_tag))"

definition titan_runtime_arity_error :: "int \<Rightarrow> int \<Rightarrow> outcome" where
  "titan_runtime_arity_error expected received =
     luaL_error ''wrong number of arguments to function, expected %d but received %d''
       [ArgInt expected, ArgInt received]"

definition titan_runtime_argument_type_error ::
  "host \<Rightarrow> string \<Rightarrow> int \<Rightarrow> int \<Rightarrow> TValue \<Rightarrow> outcome" where
  "titan_runtime_argument_type_error h param_name line expected_tag slot =
     (let expected_type = titan_tag_name h expected_tag;
          received_type = titan_tag_name h (rawtt slot)
      in luaL_error ''wrong type for argument %s at line %d, expected %s but found %s''
           [ArgStr param_name, ArgInt line, ArgStr expected_type, ArgStr received_type])"

definition titan_runtime_array_bounds_error :: "int \<Rightarrow> int \<Rightarrow> outcome" where
  "titan_runtime_array_bounds_error line col =
     luaL_error ''out of bounds (outside array part) at line %d, col %d''
       [ArgInt line, ArgInt col]"

definition titan_runtime_array_type_error :: "host \<Rightarrow> int \<Rightarrow> int \<Rightarrow> TValue \<Rightarrow> outcome" where
  "titan_runtime_array_type_error h line expected_tag slot =
     (if isempty h slot then
        luaL_error ''out of bounds (inside array part) at line %d'' [ArgInt line]
      else
        (let expected_type = titan_tag_name h expected_tag;
             received_type = titan_tag_name h (rawtt slot)
         in luaL_error ''wrong type for array element at line %d, expected %s but found %s''
              [ArgInt line, ArgStr expected_type, ArgStr received_type]))"

definition titan_runtime_function_return_error ::
  "host \<Rightarrow> int \<Rightarrow> int \<Rightarrow> TValue \<Rightarrow> outcome" where
  "titan_runtime_function_return_error h line expected_tag slot =
     (let expected_type = titan_tag_name h expected_tag;
          received_type = titan_tag_name h (rawtt slot)
      in luaL_error ''wrong type for function result at line %d, expected %s but found %s''
           [ArgInt line, ArgStr expected_type, ArgStr received_type])"

subsection \<open>The host's table operations\<close>

text \<open>
  Modelled from the spec: \<^verbatim>\<open>luaH_titan_normalize_table\<close> (ltable.c) is not among the
  sources. The specification: "any contiguous run of integer keys sitting in the hash
  region must be folded into the array region so \<open>size\<close> reflects the true logical
  array length", an operation that is "idempotent and safe to call unconditionally".
  While the hash part holds the key that continues the array part (the key equal to
  \<open>sizearray\<close>), its value moves into the slot of that index and the size advances
  by one. The size is an \<^verbatim>\<open>unsigned int\<close>: folding stops at its largest value.
\<close>

function luaH_titan_normalize_table :: "Table \<Rightarrow> Table" where
  "luaH_titan_normalize_table t =
     (case map_of (node t) (uint (sizearray t)) of
        None \<Rightarrow> t
      | Some v \<Rightarrow>
          if sizearray t = - 1 then t
          else luaH_titan_normalize_table
                 (t\<lparr>sizearray := sizearray t + 1,
                    array := (array t)(unat (sizearray t) := v),
                    node := filter (\<lambda>kv. fst kv \<noteq> uint (sizearray t)) (node t)\<rparr>))"
  by pat_completeness auto
termination
proof (relation "measure (\<lambda>t. length (node t))")
  show "wf (measure (\<lambda>t. length (node t)))" by simp
next
  fix t :: Table and v
  assume "map_of (node t) (uint (sizearray t)) = Some v"
  then have "(uint (sizearray t), v) \<in> set (node t)"
    by (rule map_of_SomeD)
  then have "length (filter (\<lambda>kv. fst kv \<noteq> uint (sizearray t)) (node t)) < length (node t)"
    by (intro length_filter_less [where x = "(uint (sizearray t), v)"]) simp_all
  then show "(t\<lparr>sizearray := sizearray t + 1,
                array := (array t)(unat (sizearray t) := v),
                node := filter (\<lambda>kv. fst kv \<noteq> uint (sizearray t)) (node t)\<rparr>, t)
             \<in> measure (\<lambda>t. length (node t))"
    by simp
qed

declare luaH_titan_normalize_table.simps [simp del]

text \<open>
  Modelled from the spec: \<^verbatim>\<open>luaH_resizearray\<close> (ltable.c) is not among the sources. The
  specification: "grow-array-capacity, taking a table and a target capacity, preserving
  existing slots". The capacity of the array part is the field \<open>sizearray\<close>, the one
  size the C code reads and doubles; the resize sets it to the target, keeps every
  slot that was inside the array part and leaves the new slots empty (holes, "within
  allocated capacity but below or at an index never written"). Slots at or above the
  new size are outside the array part. The hash part is not touched.
\<close>

definition luaH_resizearray :: "host \<Rightarrow> Table \<Rightarrow> 32 word \<Rightarrow> Table" where
  "luaH_resizearray h t nasize =
     t\<lparr>sizearray := nasize,
       array := (\<lambda>i. if i < unat (sizearray t) then array t i else emptyslot h)\<rparr>"

subsection \<open>The array bounds checks\<close>

text \<open>
  Both checks return the outcome and the table as the call leaves it (the C functions
  change \<^verbatim>\<open>*t\<close> in place, also before a raise). \<^verbatim>\<open>ui\<close> is a \<^verbatim>\<open>lua_Unsigned\<close> (64 bits);
  in \<^verbatim>\<open>ui >= asize\<close> the \<^verbatim>\<open>unsigned int\<close> is converted to it. \<^verbatim>\<open>2*asize\<close> is a product
  of \<^verbatim>\<open>unsigned int\<close>, reduced modulo \<open>2 ^ 32\<close>. In the write check the raise ends the
  call, so the second \<^verbatim>\<open>if\<close> is reached only when the first did not fire.
\<close>

definition titan_runtime_array_out_of_bounds_read ::
  "host \<Rightarrow> Table \<Rightarrow> 64 word \<Rightarrow> int \<Rightarrow> int \<Rightarrow> outcome \<times> Table" where
  "titan_runtime_array_out_of_bounds_read h t ui line col =
     (let t1 = luaH_titan_normalize_table t;
          asize = sizearray t1
      in if ui \<ge> ucast asize then (titan_runtime_array_bounds_error line col, t1)
         else (Returns, t1))"

definition titan_runtime_array_out_of_bounds_write ::
  "host \<Rightarrow> Table \<Rightarrow> 64 word \<Rightarrow> int \<Rightarrow> int \<Rightarrow> outcome \<times> Table" where
  "titan_runtime_array_out_of_bounds_write h t ui line col =
     (let t1 = luaH_titan_normalize_table t;
          asize = sizearray t1
      in if ui > ucast asize then (titan_runtime_array_bounds_error line col, t1)
         else if ui = ucast asize then
           (let asize' = (if asize = 0 then 1 else 2 * asize)
            in (Returns, luaH_resizearray h t1 asize'))
         else (Returns, t1))"

text \<open>
  Modelled from the spec: the guarded write of generated code is not among the sources.
  In the specification generated code calls a check "inline before/after the dynamic
  operation it guards", and an append is a write "at \<open>index == size\<close>": the write
  check, and when it returns, the store of the value into slot \<open>ui\<close>. It is used
  only to run a sequence of appends.
\<close>

definition guarded_store ::
  "host \<Rightarrow> Table \<Rightarrow> 64 word \<Rightarrow> TValue \<Rightarrow> int \<Rightarrow> int \<Rightarrow> outcome \<times> Table" where
  "guarded_store h t ui v line col =
     (case titan_runtime_array_out_of_bounds_write h t ui line col of
        (Returns, t1) \<Rightarrow> (Returns, t1\<lparr>array := (array t1)(unat ui := v)\<rparr>)
      | (Raises msg, t1) \<Rightarrow> (Raises msg, t1))"

subsection \<open>Concrete inputs\<close>

text \<open>
  A host to evaluate the functions on: the tag numbering of the Lua headers
  (\<^verbatim>\<open>LUA_TNUMBER\<close> is 3, the float variant 3 and the integer variant 19; \<^verbatim>\<open>novariant\<close>
  keeps the low four bits; \<^verbatim>\<open>ttypename\<close> indexes the table of type names; a slot is
  empty when its type is nil). The theorems about the C functions are stated for every
  host; this one only supplies inputs.
\<close>

definition lua_host :: host where
  "lua_host =
     \<lparr>LUA_TNUMINT = 19, LUA_TNUMFLT = 3,
      novariant = (\<lambda>x. x mod 16),
      ttypename = (\<lambda>x. [''no value'', ''nil'', ''boolean'', ''userdata'', ''number'', ''string'',
                         ''table'', ''function'', ''userdata'', ''thread'', ''proto''] ! nat (x + 1)),
      isempty = (\<lambda>v. tt v mod 16 = 0),
      emptyslot = \<lparr>val = 0, tt = 16\<rparr>\<rparr>"

definition int_value :: "64 word \<Rightarrow> TValue" where
  "int_value n = \<lparr>val = n, tt = 19\<rparr>"

definition float_value :: "64 word \<Rightarrow> TValue" where
  "float_value bits = \<lparr>val = bits, tt = 3\<rparr>"

text \<open>
  Tables: an empty one; one holding three integers in an array part of size 3; one
  holding two; one whose array part is empty while the hash part holds the keys 0 and 1
  (not normalized); one whose array part has \<open>2 ^ 31\<close> slots.
\<close>

definition table0 :: Table where
  "table0 = \<lparr>sizearray = 0, array = (\<lambda>i. emptyslot lua_host), node = []\<rparr>"

definition table3 :: Table where
  "table3 =
     \<lparr>sizearray = 3,
      array = (\<lambda>i. if i < 3 then int_value (10 + of_nat i) else emptyslot lua_host),
      node = []\<rparr>"

definition table2 :: Table where
  "table2 =
     \<lparr>sizearray = 2,
      array = (\<lambda>i. if i < 2 then int_value (10 + of_nat i) else emptyslot lua_host),
      node = []\<rparr>"

definition table_hashed :: Table where
  "table_hashed =
     \<lparr>sizearray = 0, array = (\<lambda>i. emptyslot lua_host),
      node = [(1, int_value 11), (0, int_value 10)]\<rparr>"

definition table_big :: Table where
  "table_big = \<lparr>sizearray = 2 ^ 31, array = (\<lambda>i. int_value 7), node = []\<rparr>"

section \<open>Auxiliary facts\<close>

subsection \<open>Comparing a 64-bit index with the 32-bit size\<close>

lemma unat_ucast_asize: "unat (ucast (s :: 32 word) :: 64 word) = unat s"
proof -
  have "unat s < 2 ^ 32" using unsigned_less [of s, where 'a = nat] by simp
  then show ?thesis
    by (simp add: unsigned_ucast_eq take_bit_nat_eq_self)
qed

lemma le_ucast_asize: "((ui :: 64 word) \<ge> ucast (s :: 32 word)) = (unat s \<le> unat ui)"
  by (simp add: word_le_nat_alt unat_ucast_asize)

lemma less_ucast_asize: "((ui :: 64 word) > ucast (s :: 32 word)) = (unat s < unat ui)"
  by (simp add: word_less_nat_alt unat_ucast_asize)

lemma eq_ucast_asize: "((ui :: 64 word) = ucast (s :: 32 word)) = (unat ui = unat s)"
  by (simp add: word_unat_eq_iff unat_ucast_asize)

subsection \<open>Resizing and doubling\<close>

lemma resizearray_fields:
  "sizearray (luaH_resizearray h t n) = n"
  "node (luaH_resizearray h t n) = node t"
  "array (luaH_resizearray h t n) i = (if i < unat (sizearray t) then array t i else emptyslot h)"
  by (simp_all add: luaH_resizearray_def)

lemma unat_double_asize:
  "unat (2 * (s :: 32 word)) = (2 * unat s) mod 2 ^ 32"
  by (simp add: unat_word_ariths)

lemma unat_double_small:
  "unat (s :: 32 word) < 2 ^ 31 \<Longrightarrow> unat (2 * s) = 2 * unat s"
  by (simp add: unat_double_asize)

lemma double_asize_neq: "(2 * (s :: 32 word) = s) = (s = 0)"
proof
  assume a: "2 * s = s"
  have "s + s = 2 * s" by (rule mult_2 [symmetric])
  with a have "s + s = s + 0" by (simp only: add_0_right)
  then show "s = 0" by (rule add_left_imp_eq)
next
  assume "s = 0"
  then show "2 * s = s" by (simp only: mult_zero_right)
qed

subsection \<open>Normalization\<close>

lemma normalize_no_run:
  "map_of (node t) (uint (sizearray t)) = None \<Longrightarrow> luaH_titan_normalize_table t = t"
  by (subst luaH_titan_normalize_table.simps) simp

lemma normalize_empty_hash: "node t = [] \<Longrightarrow> luaH_titan_normalize_table t = t"
  by (simp add: normalize_no_run)

text \<open>The operation is idempotent, as the specification requires of the host.\<close>

lemma normalize_idem:
  "luaH_titan_normalize_table (luaH_titan_normalize_table t) = luaH_titan_normalize_table t"
proof (induction t rule: luaH_titan_normalize_table.induct)
  case (1 t)
  show ?case
  proof (cases "map_of (node t) (uint (sizearray t))")
    case None
    then have "luaH_titan_normalize_table t = t"
      by (rule normalize_no_run)
    then show ?thesis by simp
  next
    case (Some v)
    show ?thesis
    proof (cases "sizearray t = - 1")
      case True
      with Some have "luaH_titan_normalize_table t = t"
        by (subst luaH_titan_normalize_table.simps) simp
      then show ?thesis by simp
    next
      case False
      with Some 1 show ?thesis
        by (subst (1 2) luaH_titan_normalize_table.simps) simp
    qed
  qed
qed

lemma succ_asize_nonzero: "(s :: 32 word) \<noteq> - 1 \<Longrightarrow> 1 + s \<noteq> 0"
proof
  assume a: "s \<noteq> - 1" and b: "1 + s = 0"
  from b have "s = - 1" by (simp only: add_eq_0_iff)
  with a show False by (rule notE)
qed

lemma normalize_size_mono:
  "unat (sizearray t) \<le> unat (sizearray (luaH_titan_normalize_table t))"
proof (induction t rule: luaH_titan_normalize_table.induct)
  case (1 t)
  show ?case
  proof (cases "map_of (node t) (uint (sizearray t))")
    case None
    then show ?thesis by (simp add: normalize_no_run)
  next
    case (Some v)
    show ?thesis
    proof (cases "sizearray t = - 1")
      case True
      with Some show ?thesis
        by (subst luaH_titan_normalize_table.simps) simp
    next
      case False
      then have "1 + sizearray t \<noteq> 0"
        by (rule succ_asize_nonzero)
      then have "unat (1 + sizearray t) = Suc (unat (sizearray t))"
        by (rule unatSuc)
      then have u: "unat (sizearray t + 1) = Suc (unat (sizearray t))"
        by (simp add: add.commute)
      from Some False 1 [OF Some False] u show ?thesis
        by (subst luaH_titan_normalize_table.simps) simp
    qed
  qed
qed

lemma normalize_table_hashed:
  "luaH_titan_normalize_table table_hashed =
     \<lparr>sizearray = 2,
      array = ((\<lambda>i. emptyslot lua_host)(0 := int_value 10, 1 := int_value 11)),
      node = []\<rparr>"
  by (simp add: table_hashed_def luaH_titan_normalize_table.simps)

subsection \<open>Messages\<close>

lemma arity_error_message:
  "titan_runtime_arity_error expected received =
     Raises (''wrong number of arguments to function, expected '' @ show_int expected
             @ '' but received '' @ show_int received)"
  by (simp add: titan_runtime_arity_error_def luaL_error_def)

lemma argument_type_error_message:
  "titan_runtime_argument_type_error h param_name line expected_tag slot =
     Raises (''wrong type for argument '' @ param_name @ '' at line '' @ show_int line
             @ '', expected '' @ titan_tag_name h expected_tag
             @ '' but found '' @ titan_tag_name h (rawtt slot))"
  by (simp add: titan_runtime_argument_type_error_def luaL_error_def)

lemma array_bounds_error_message:
  "titan_runtime_array_bounds_error line col =
     Raises (''out of bounds (outside array part) at line '' @ show_int line
             @ '', col '' @ show_int col)"
  by (simp add: titan_runtime_array_bounds_error_def luaL_error_def)

lemma array_hole_error_message:
  "isempty h slot \<Longrightarrow>
   titan_runtime_array_type_error h line expected_tag slot =
     Raises (''out of bounds (inside array part) at line '' @ show_int line)"
  by (simp add: titan_runtime_array_type_error_def luaL_error_def)

lemma array_type_error_message:
  "\<not> isempty h slot \<Longrightarrow>
   titan_runtime_array_type_error h line expected_tag slot =
     Raises (''wrong type for array element at line '' @ show_int line
             @ '', expected '' @ titan_tag_name h expected_tag
             @ '' but found '' @ titan_tag_name h (rawtt slot))"
  by (simp add: titan_runtime_array_type_error_def luaL_error_def)

lemma function_return_error_message:
  "titan_runtime_function_return_error h line expected_tag slot =
     Raises (''wrong type for function result at line '' @ show_int line
             @ '', expected '' @ titan_tag_name h expected_tag
             @ '' but found '' @ titan_tag_name h (rawtt slot))"
  by (simp add: titan_runtime_function_return_error_def luaL_error_def)

lemma show_int_digits:
  "show_int 1 = ''1''" "show_int 2 = ''2''" "show_int 3 = ''3''"
  "show_int 7 = ''7''" "show_int 9 = ''9''" "show_int 12 = ''12''"
  by (simp_all add: show_int_def show_nat.simps digit_char_def)

subsection \<open>The bounds checks, unfolded\<close>

text \<open>
  Both checks in terms of the index and the size of the normalized table, compared as
  natural numbers.
\<close>

lemma read_check_unfold:
  "titan_runtime_array_out_of_bounds_read h t ui line col =
     (if unat (sizearray (luaH_titan_normalize_table t)) \<le> unat ui
      then titan_runtime_array_bounds_error line col else Returns,
      luaH_titan_normalize_table t)"
  by (simp add: titan_runtime_array_out_of_bounds_read_def Let_def le_ucast_asize)

lemma write_check_unfold:
  "titan_runtime_array_out_of_bounds_write h t ui line col =
     (if unat (sizearray (luaH_titan_normalize_table t)) < unat ui
      then (titan_runtime_array_bounds_error line col, luaH_titan_normalize_table t)
      else if unat ui = unat (sizearray (luaH_titan_normalize_table t))
      then (Returns,
            luaH_resizearray h (luaH_titan_normalize_table t)
              (if sizearray (luaH_titan_normalize_table t) = 0 then 1
               else 2 * sizearray (luaH_titan_normalize_table t)))
      else (Returns, luaH_titan_normalize_table t))"
  by (simp add: titan_runtime_array_out_of_bounds_write_def Let_def less_ucast_asize
      eq_ucast_asize)

lemma bounds_error_raises: "titan_runtime_array_bounds_error line col \<noteq> Returns"
  by (simp add: array_bounds_error_message)

text \<open>A check on an index below the size on entry returns: normalization never shrinks the size.\<close>

lemma read_after_normalize_mono:
  "unat uj < unat (sizearray t) \<Longrightarrow>
   fst (titan_runtime_array_out_of_bounds_read h t uj line col) = Returns"
  using normalize_size_mono [of t] by (simp add: read_check_unfold)

lemma write_after_normalize_mono:
  "unat uj < unat (sizearray t) \<Longrightarrow>
   fst (titan_runtime_array_out_of_bounds_write h t uj line col) = Returns"
  using normalize_size_mono [of t] by (simp add: write_check_unfold)

subsection \<open>A sequence of appends\<close>

lemma guarded_store_empty_hash:
  "node t = [] \<Longrightarrow>
   guarded_store h t ui v line col =
     (if unat (sizearray t) < unat ui then (titan_runtime_array_bounds_error line col, t)
      else if unat ui = unat (sizearray t)
      then (Returns, (luaH_resizearray h t (if sizearray t = 0 then 1 else 2 * sizearray t))
                       \<lparr>array := (array (luaH_resizearray h t
                                     (if sizearray t = 0 then 1 else 2 * sizearray t)))
                                 (unat ui := v)\<rparr>)
      else (Returns, t\<lparr>array := (array t)(unat ui := v)\<rparr>))"
  by (simp add: guarded_store_def write_check_unfold normalize_empty_hash
      array_bounds_error_message)


lemma five_appends:
  assumes "sizearray t0 = 0" and "node t0 = []"
  shows "(let r1 = guarded_store h t0 0 v0 line col;
              r2 = guarded_store h (snd r1) 1 v1 line col;
              r3 = guarded_store h (snd r2) 2 v2 line col;
              r4 = guarded_store h (snd r3) 3 v3 line col;
              r5 = guarded_store h (snd r4) 4 v4 line col
          in map fst [r1, r2, r3, r4, r5] = [Returns, Returns, Returns, Returns, Returns]
           \<and> map (\<lambda>r. unat (sizearray (snd r))) [r1, r2, r3, r4, r5] = [1, 2, 4, 4, 8]
           \<and> map (array (snd r5)) [0, 1, 2, 3, 4] = [v0, v1, v2, v3, v4])"
proof -
  define r1 where "r1 = guarded_store h t0 0 v0 line col"
  define r2 where "r2 = guarded_store h (snd r1) 1 v1 line col"
  define r3 where "r3 = guarded_store h (snd r2) 2 v2 line col"
  define r4 where "r4 = guarded_store h (snd r3) 3 v3 line col"
  define r5 where "r5 = guarded_store h (snd r4) 4 v4 line col"
  have p1: "fst r1 = Returns" "sizearray (snd r1) = 1" "node (snd r1) = []"
    "array (snd r1) 0 = v0"
    using assms by (simp_all add: r1_def guarded_store_empty_hash resizearray_fields)
  have p2: "fst r2 = Returns" "sizearray (snd r2) = 2" "node (snd r2) = []"
    "array (snd r2) 0 = v0" "array (snd r2) 1 = v1"
    using p1 by (simp_all add: r2_def guarded_store_empty_hash resizearray_fields)
  have p3: "fst r3 = Returns" "sizearray (snd r3) = 4" "node (snd r3) = []"
    "array (snd r3) 0 = v0" "array (snd r3) 1 = v1" "array (snd r3) 2 = v2"
    using p2 by (simp_all add: r3_def guarded_store_empty_hash resizearray_fields)
  have p4: "fst r4 = Returns" "sizearray (snd r4) = 4" "node (snd r4) = []"
    "array (snd r4) 0 = v0" "array (snd r4) 1 = v1" "array (snd r4) 2 = v2"
    "array (snd r4) 3 = v3"
    using p3 by (simp_all add: r4_def guarded_store_empty_hash resizearray_fields)
  have p5: "fst r5 = Returns" "sizearray (snd r5) = 8" "node (snd r5) = []"
    "array (snd r5) 0 = v0" "array (snd r5) 1 = v1" "array (snd r5) 2 = v2"
    "array (snd r5) 3 = v3" "array (snd r5) 4 = v4"
    using p4 by (simp_all add: r5_def guarded_store_empty_hash resizearray_fields)
  have "map fst [r1, r2, r3, r4, r5] = [Returns, Returns, Returns, Returns, Returns]
      \<and> map (\<lambda>r. unat (sizearray (snd r))) [r1, r2, r3, r4, r5] = [1, 2, 4, 4, 8]
      \<and> map (array (snd r5)) [0, 1, 2, 3, 4] = [v0, v1, v2, v3, v4]"
    using p1 p2 p3 p4 p5 by simp
  then show ?thesis
    unfolding Let_def r1_def r2_def r3_def r4_def r5_def .
qed

section \<open>The claims\<close>

text \<open>
  C8. Every diagnostic of the layer has the specified text: the six messages, with
  \<open><N>\<close>, \<open><M>\<close>, \<open><L>\<close>, \<open><C>\<close> the decimal form of the integer arguments,
  \<open><name>\<close> the parameter name, and \<open><T1>\<close>, \<open><T2>\<close> the names that
  \<open>titan_tag_name\<close> gives the expected tag and the slot's tag. The hole message has
  no column. The only message the two bounds checks raise is the "outside" one. The
  last conjunct is the specification's scenario: a call with 3 arguments where 2 are
  declared. (The host's \<^verbatim>\<open>luaL_error\<close> puts the position of the calling Lua code, if
  any, in front of the message; that prefix is the host's and is not modelled.)
\<close>

theorem diagnostic_formats:
  "titan_runtime_arity_error expected received =
     Raises (''wrong number of arguments to function, expected '' @ show_int expected
             @ '' but received '' @ show_int received)
   \<and> titan_runtime_argument_type_error h param_name line expected_tag slot =
     Raises (''wrong type for argument '' @ param_name @ '' at line '' @ show_int line
             @ '', expected '' @ titan_tag_name h expected_tag
             @ '' but found '' @ titan_tag_name h (rawtt slot))
   \<and> titan_runtime_array_bounds_error line col =
     Raises (''out of bounds (outside array part) at line '' @ show_int line
             @ '', col '' @ show_int col)
   \<and> titan_runtime_array_type_error h line expected_tag slot =
     (if isempty h slot
      then Raises (''out of bounds (inside array part) at line '' @ show_int line)
      else Raises (''wrong type for array element at line '' @ show_int line
             @ '', expected '' @ titan_tag_name h expected_tag
             @ '' but found '' @ titan_tag_name h (rawtt slot)))
   \<and> titan_runtime_function_return_error h line expected_tag slot =
     Raises (''wrong type for function result at line '' @ show_int line
             @ '', expected '' @ titan_tag_name h expected_tag
             @ '' but found '' @ titan_tag_name h (rawtt slot))
   \<and> fst (titan_runtime_array_out_of_bounds_read h t ui line col) \<in>
       {Returns, Raises (''out of bounds (outside array part) at line '' @ show_int line
             @ '', col '' @ show_int col)}
   \<and> fst (titan_runtime_array_out_of_bounds_write h t ui line col) \<in>
       {Returns, Raises (''out of bounds (outside array part) at line '' @ show_int line
             @ '', col '' @ show_int col)}
   \<and> titan_runtime_arity_error 2 3 =
       Raises ''wrong number of arguments to function, expected 2 but received 3''"
proof -
  have "titan_runtime_array_type_error h line expected_tag slot =
     (if isempty h slot
      then Raises (''out of bounds (inside array part) at line '' @ show_int line)
      else Raises (''wrong type for array element at line '' @ show_int line
             @ '', expected '' @ titan_tag_name h expected_tag
             @ '' but found '' @ titan_tag_name h (rawtt slot)))"
    by (simp add: array_hole_error_message array_type_error_message)
  moreover have "fst (titan_runtime_array_out_of_bounds_read h t ui line col) \<in>
       {Returns, Raises (''out of bounds (outside array part) at line '' @ show_int line
             @ '', col '' @ show_int col)}"
    by (simp add: read_check_unfold array_bounds_error_message)
  moreover have "fst (titan_runtime_array_out_of_bounds_write h t ui line col) \<in>
       {Returns, Raises (''out of bounds (outside array part) at line '' @ show_int line
             @ '', col '' @ show_int col)}"
    by (simp add: write_check_unfold array_bounds_error_message)
  moreover have "titan_runtime_arity_error 2 3 =
       Raises ''wrong number of arguments to function, expected 2 but received 3''"
    by (simp add: arity_error_message show_int_digits)
  ultimately show ?thesis
    using arity_error_message argument_type_error_message array_bounds_error_message
      function_return_error_message by simp
qed

text \<open>
  C2. For a normalized table of size \<open>S\<close> and an index \<open>i\<close>: the read check returns
  if \<open>i < S\<close> and raises the "outside array part" violation if \<open>i \<ge> S\<close>; the write
  check raises that violation if and only if \<open>i > S\<close> (and returns otherwise), and for
  \<open>i < S\<close> it returns and leaves the table, so also the array region, as it was.
\<close>

theorem bounds_decisions:
  assumes "luaH_titan_normalize_table t = t"
  shows "(unat ui < unat (sizearray t) \<longrightarrow>
            titan_runtime_array_out_of_bounds_read h t ui line col = (Returns, t))
       \<and> (unat (sizearray t) \<le> unat ui \<longrightarrow>
            titan_runtime_array_out_of_bounds_read h t ui line col =
              (Raises (''out of bounds (outside array part) at line '' @ show_int line
                       @ '', col '' @ show_int col), t))
       \<and> ((fst (titan_runtime_array_out_of_bounds_write h t ui line col) =
              Raises (''out of bounds (outside array part) at line '' @ show_int line
                      @ '', col '' @ show_int col))
            = (unat (sizearray t) < unat ui))
       \<and> ((fst (titan_runtime_array_out_of_bounds_write h t ui line col) = Returns)
            = (unat ui \<le> unat (sizearray t)))
       \<and> (unat ui < unat (sizearray t) \<longrightarrow>
            titan_runtime_array_out_of_bounds_write h t ui line col = (Returns, t))"
  using assms by (simp add: read_check_unfold write_check_unfold array_bounds_error_message)

text \<open>The theorem at the table of three integers: indices 2, 3 and 5.\<close>

theorem bounds_decisions_witness:
  "luaH_titan_normalize_table table3 = table3
   \<and> titan_runtime_array_out_of_bounds_read lua_host table3 2 7 9 = (Returns, table3)
   \<and> titan_runtime_array_out_of_bounds_read lua_host table3 3 7 9 =
       (Raises ''out of bounds (outside array part) at line 7, col 9'', table3)
   \<and> titan_runtime_array_out_of_bounds_read lua_host table3 5 7 9 =
       (Raises ''out of bounds (outside array part) at line 7, col 9'', table3)
   \<and> fst (titan_runtime_array_out_of_bounds_write lua_host table3 5 7 9) =
       Raises ''out of bounds (outside array part) at line 7, col 9''
   \<and> fst (titan_runtime_array_out_of_bounds_write lua_host table3 3 7 9) = Returns
   \<and> titan_runtime_array_out_of_bounds_write lua_host table3 2 7 9 = (Returns, table3)"
proof -
  have n: "luaH_titan_normalize_table table3 = table3"
    by (simp add: normalize_empty_hash table3_def)
  have s: "unat (sizearray table3) = 3" by (simp add: table3_def)
  show ?thesis
    using n bounds_decisions [OF n, of 2 lua_host 7 9] bounds_decisions [OF n, of 3 lua_host 7 9]
      bounds_decisions [OF n, of 5 lua_host 7 9]
    by (simp add: s show_int_digits)
qed


text \<open>
  C6. Normalization comes before every bounds decision. Both checks decide by the size
  of the normalized table, never by the size the table had on entry, and leave the
  normalized table behind; so each check on a table is the check on its
  normalization. The last four conjuncts show the difference on a table whose array
  part is empty on entry while its hash part holds the keys 0 and 1: the size on entry
  is 0, yet reading index 1 returns, and writing index 0 is an in-bounds write that
  grows nothing.
\<close>

theorem normalization_precedes_decisions:
  "titan_runtime_array_out_of_bounds_read h t ui line col =
     (if unat (sizearray (luaH_titan_normalize_table t)) \<le> unat ui
      then titan_runtime_array_bounds_error line col else Returns,
      luaH_titan_normalize_table t)
   \<and> fst (titan_runtime_array_out_of_bounds_write h t ui line col) =
     (if unat (sizearray (luaH_titan_normalize_table t)) < unat ui
      then titan_runtime_array_bounds_error line col else Returns)
   \<and> snd (titan_runtime_array_out_of_bounds_write h t ui line col) =
     (if unat ui = unat (sizearray (luaH_titan_normalize_table t))
      then luaH_resizearray h (luaH_titan_normalize_table t)
             (if sizearray (luaH_titan_normalize_table t) = 0 then 1
              else 2 * sizearray (luaH_titan_normalize_table t))
      else luaH_titan_normalize_table t)
   \<and> titan_runtime_array_out_of_bounds_read h t ui line col =
       titan_runtime_array_out_of_bounds_read h (luaH_titan_normalize_table t) ui line col
   \<and> titan_runtime_array_out_of_bounds_write h t ui line col =
       titan_runtime_array_out_of_bounds_write h (luaH_titan_normalize_table t) ui line col
   \<and> sizearray table_hashed = 0
   \<and> fst (titan_runtime_array_out_of_bounds_read h table_hashed 1 line col) = Returns
   \<and> fst (titan_runtime_array_out_of_bounds_write h table_hashed 0 line col) = Returns
   \<and> snd (titan_runtime_array_out_of_bounds_write h table_hashed 0 line col) =
       luaH_titan_normalize_table table_hashed"
proof -
  have "titan_runtime_array_out_of_bounds_read h t ui line col =
       titan_runtime_array_out_of_bounds_read h (luaH_titan_normalize_table t) ui line col"
    by (simp add: read_check_unfold normalize_idem)
  moreover have "titan_runtime_array_out_of_bounds_write h t ui line col =
       titan_runtime_array_out_of_bounds_write h (luaH_titan_normalize_table t) ui line col"
    by (simp add: write_check_unfold normalize_idem)
  moreover have "fst (titan_runtime_array_out_of_bounds_write h t ui line col) =
     (if unat (sizearray (luaH_titan_normalize_table t)) < unat ui
      then titan_runtime_array_bounds_error line col else Returns)"
    by (simp add: write_check_unfold)
  moreover have "snd (titan_runtime_array_out_of_bounds_write h t ui line col) =
     (if unat ui = unat (sizearray (luaH_titan_normalize_table t))
      then luaH_resizearray h (luaH_titan_normalize_table t)
             (if sizearray (luaH_titan_normalize_table t) = 0 then 1
              else 2 * sizearray (luaH_titan_normalize_table t))
      else luaH_titan_normalize_table t)"
    by (simp add: write_check_unfold)
  moreover have "sizearray table_hashed = 0"
    by (simp add: table_hashed_def)
  moreover have "fst (titan_runtime_array_out_of_bounds_read h table_hashed 1 line col) = Returns"
    by (simp add: read_check_unfold normalize_table_hashed)
  moreover have "fst (titan_runtime_array_out_of_bounds_write h table_hashed 0 line col) = Returns"
    by (simp add: write_check_unfold normalize_table_hashed)
  moreover have "snd (titan_runtime_array_out_of_bounds_write h table_hashed 0 line col) =
       luaH_titan_normalize_table table_hashed"
    by (simp add: write_check_unfold normalize_table_hashed)
  ultimately show ?thesis
    by (simp only: read_check_unfold simp_thms)
qed

text \<open>
  C7, as the specification states it, fails: on a table that is not normalized the read
  check returns while size, array part and hash part have all changed (the two
  integer keys have moved from the hash part into slots 0 and 1).
\<close>

theorem read_check_mutates_counterexample:
  "fst (titan_runtime_array_out_of_bounds_read lua_host table_hashed 0 7 9) = Returns
   \<and> sizearray table_hashed = 0
   \<and> sizearray (snd (titan_runtime_array_out_of_bounds_read lua_host table_hashed 0 7 9)) = 2
   \<and> node table_hashed = [(1, int_value 11), (0, int_value 10)]
   \<and> node (snd (titan_runtime_array_out_of_bounds_read lua_host table_hashed 0 7 9)) = []
   \<and> array table_hashed 0 = emptyslot lua_host
   \<and> array (snd (titan_runtime_array_out_of_bounds_read lua_host table_hashed 0 7 9)) 0 = int_value 10
   \<and> snd (titan_runtime_array_out_of_bounds_read lua_host table_hashed 0 7 9) \<noteq> table_hashed"
proof -
  have "snd (titan_runtime_array_out_of_bounds_read lua_host table_hashed 0 7 9) \<noteq> table_hashed"
    by (simp add: read_check_unfold normalize_table_hashed) (simp add: table_hashed_def)
  then show ?thesis
    by (simp add: read_check_unfold normalize_table_hashed) (simp add: table_hashed_def)
qed

text \<open>
  C7, amended. The read check changes the table only through the normalization it
  triggers: whatever the outcome, the table it leaves is the normalized table, and a
  table that is already normalized is left exactly as it was.
\<close>

theorem read_check_frame:
  "snd (titan_runtime_array_out_of_bounds_read h t ui line col) = luaH_titan_normalize_table t
   \<and> (luaH_titan_normalize_table t = t \<longrightarrow>
        snd (titan_runtime_array_out_of_bounds_read h t ui line col) = t)"
  by (simp add: read_check_unfold)

text \<open>The theorem at the table of three integers, for a read that returns and one that raises.\<close>

theorem read_check_frame_witness:
  "luaH_titan_normalize_table table3 = table3
   \<and> titan_runtime_array_out_of_bounds_read lua_host table3 1 7 9 = (Returns, table3)
   \<and> snd (titan_runtime_array_out_of_bounds_read lua_host table3 5 7 9) = table3"
proof -
  have n: "luaH_titan_normalize_table table3 = table3"
    by (simp add: normalize_empty_hash table3_def)
  have r: "fst (titan_runtime_array_out_of_bounds_read lua_host table3 1 7 9) = Returns"
    by (simp add: read_check_unfold n) (simp add: table3_def)
  show ?thesis
    using n r read_check_frame [of lua_host table3 1 7 9] read_check_frame [of lua_host table3 5 7 9]
    by (simp add: prod_eq_iff)
qed

text \<open>
  C9. The decisions depend on the index and the size after normalization only. For two
  tables of equal size after normalization and one index, under any hosts, lines and
  columns: the read checks both return or both raise, the write checks both return or
  both raise, on growth both ask the host's resize for the same new size, and the
  sizes they leave are equal.
\<close>

theorem decisions_depend_on_size_only:
  assumes "sizearray (luaH_titan_normalize_table t1) = sizearray (luaH_titan_normalize_table t2)"
  shows "((fst (titan_runtime_array_out_of_bounds_read h1 t1 ui line1 col1) = Returns)
          = (fst (titan_runtime_array_out_of_bounds_read h2 t2 ui line2 col2) = Returns))
       \<and> ((fst (titan_runtime_array_out_of_bounds_write h1 t1 ui line1 col1) = Returns)
          = (fst (titan_runtime_array_out_of_bounds_write h2 t2 ui line2 col2) = Returns))
       \<and> (unat ui = unat (sizearray (luaH_titan_normalize_table t1)) \<longrightarrow>
            (\<exists>nasize.
               snd (titan_runtime_array_out_of_bounds_write h1 t1 ui line1 col1) =
                 luaH_resizearray h1 (luaH_titan_normalize_table t1) nasize
             \<and> snd (titan_runtime_array_out_of_bounds_write h2 t2 ui line2 col2) =
                 luaH_resizearray h2 (luaH_titan_normalize_table t2) nasize))
       \<and> sizearray (snd (titan_runtime_array_out_of_bounds_write h1 t1 ui line1 col1))
          = sizearray (snd (titan_runtime_array_out_of_bounds_write h2 t2 ui line2 col2))"
  using assms
  by (auto simp: read_check_unfold write_check_unfold bounds_error_raises resizearray_fields)

text \<open>
  The theorem at two tables of size 2 after normalization with different contents (one
  has its values in the hash part on entry), different lines and columns, at the
  indices 1, 2 and 3.
\<close>

theorem decisions_depend_on_size_only_witness:
  "sizearray (luaH_titan_normalize_table table2) = sizearray (luaH_titan_normalize_table table_hashed)
   \<and> fst (titan_runtime_array_out_of_bounds_read lua_host table2 1 7 9) = Returns
   \<and> fst (titan_runtime_array_out_of_bounds_read lua_host table_hashed 1 12 3) = Returns
   \<and> fst (titan_runtime_array_out_of_bounds_write lua_host table2 2 7 9) = Returns
   \<and> fst (titan_runtime_array_out_of_bounds_write lua_host table_hashed 2 12 3) = Returns
   \<and> sizearray (snd (titan_runtime_array_out_of_bounds_write lua_host table2 2 7 9)) = 4
   \<and> sizearray (snd (titan_runtime_array_out_of_bounds_write lua_host table_hashed 2 12 3)) = 4
   \<and> fst (titan_runtime_array_out_of_bounds_write lua_host table2 3 7 9) \<noteq> Returns
   \<and> fst (titan_runtime_array_out_of_bounds_write lua_host table_hashed 3 12 3) \<noteq> Returns"
proof -
  have n2: "luaH_titan_normalize_table table2 = table2"
    by (simp add: normalize_empty_hash table2_def)
  have s2: "sizearray table2 = 2" by (simp add: table2_def)
  have sh: "sizearray (luaH_titan_normalize_table table_hashed) = 2"
    by (simp add: table_hashed_def luaH_titan_normalize_table.simps)
  have eq: "sizearray (luaH_titan_normalize_table table2)
            = sizearray (luaH_titan_normalize_table table_hashed)"
    by (simp add: n2 s2 sh)
  have r1: "fst (titan_runtime_array_out_of_bounds_read lua_host table2 1 7 9) = Returns"
    by (simp add: read_check_unfold n2 s2)
  have w2: "fst (titan_runtime_array_out_of_bounds_write lua_host table2 2 7 9) = Returns"
    by (simp add: write_check_unfold n2 s2)
  have c2: "sizearray (snd (titan_runtime_array_out_of_bounds_write lua_host table2 2 7 9)) = 4"
    by (simp add: write_check_unfold n2 s2 resizearray_fields)
  have w3: "fst (titan_runtime_array_out_of_bounds_write lua_host table2 3 7 9) \<noteq> Returns"
    by (simp add: write_check_unfold n2 s2 bounds_error_raises)
  show ?thesis
    using eq r1 w2 c2 w3
      decisions_depend_on_size_only [OF eq, of lua_host 1 7 9 lua_host 12 3]
      decisions_depend_on_size_only [OF eq, of lua_host 2 7 9 lua_host 12 3]
      decisions_depend_on_size_only [OF eq, of lua_host 3 7 9 lua_host 12 3]
    by simp
qed

text \<open>
  C10. The doubling has no overflow check. When the size after normalization is at
  least \<open>2 ^ 31\<close> (the width of \<^verbatim>\<open>unsigned int\<close> being 32) and the index equals it,
  the write check returns and the size it asks the host's resize for is
  \<open>(2 * size) mod 2 ^ 32\<close>, which is \<open>2 * size - 2 ^ 32\<close> and not the double.
\<close>

theorem doubling_wraps:
  assumes "2 ^ 31 \<le> unat (sizearray (luaH_titan_normalize_table t))"
    and "unat ui = unat (sizearray (luaH_titan_normalize_table t))"
  shows "titan_runtime_array_out_of_bounds_write h t ui line col =
           (Returns, luaH_resizearray h (luaH_titan_normalize_table t)
                       (2 * sizearray (luaH_titan_normalize_table t)))
       \<and> unat (2 * sizearray (luaH_titan_normalize_table t)) =
           (2 * unat (sizearray (luaH_titan_normalize_table t))) mod 2 ^ 32
       \<and> unat (2 * sizearray (luaH_titan_normalize_table t)) =
           2 * unat (sizearray (luaH_titan_normalize_table t)) - 2 ^ 32
       \<and> unat (2 * sizearray (luaH_titan_normalize_table t)) \<noteq>
           2 * unat (sizearray (luaH_titan_normalize_table t))"
proof -
  let ?S = "sizearray (luaH_titan_normalize_table t)"
  have lt: "unat ?S < 2 ^ 32" using unsigned_less [of ?S, where 'a = nat] by simp
  from assms(1) have nz: "?S \<noteq> 0" by (auto simp: unat_eq_0 [symmetric] simp del: unat_eq_0)
  have m: "unat (2 * ?S) = (2 * unat ?S) mod 2 ^ 32" by (rule unat_double_asize)
  from assms(1) lt have d: "(2 * unat ?S) mod 2 ^ 32 = 2 * unat ?S - 2 ^ 32"
    by (simp add: mod_if)
  from assms(1) lt m d have ne: "unat (2 * ?S) \<noteq> 2 * unat ?S" by simp
  have w: "titan_runtime_array_out_of_bounds_write h t ui line col =
           (Returns, luaH_resizearray h (luaH_titan_normalize_table t) (2 * ?S))"
    using assms(2) nz by (simp add: write_check_unfold)
  from w m d ne show ?thesis by simp
qed

text \<open>The theorem at the table of \<open>2 ^ 31\<close> slots: the new size asked for is 0.\<close>

theorem doubling_wraps_witness:
  "(2::nat) ^ 31 \<le> unat (sizearray (luaH_titan_normalize_table table_big))
   \<and> unat (2 ^ 31 :: 64 word) = unat (sizearray (luaH_titan_normalize_table table_big))
   \<and> titan_runtime_array_out_of_bounds_write lua_host table_big (2 ^ 31) 7 9 =
       (Returns, luaH_resizearray lua_host table_big 0)
   \<and> sizearray (snd (titan_runtime_array_out_of_bounds_write lua_host table_big (2 ^ 31) 7 9)) = 0"
proof -
  have n: "luaH_titan_normalize_table table_big = table_big"
    by (simp add: normalize_empty_hash table_big_def)
  have s: "sizearray table_big = 2 ^ 31" by (simp add: table_big_def)
  have h1: "(2::nat) ^ 31 \<le> unat (sizearray (luaH_titan_normalize_table table_big))"
    by (simp add: n s)
  have h2: "unat (2 ^ 31 :: 64 word) = unat (sizearray (luaH_titan_normalize_table table_big))"
    by (simp add: n s)
  have z: "2 * 2 ^ 31 = (0 :: 32 word)" by simp
  show ?thesis
    using h1 h2 doubling_wraps [OF h1 h2, of lua_host 7 9]
    by (simp only: n s z) (simp add: resizearray_fields)
qed

text \<open>
  The rule of C1 below the overflow. A write check at the index equal to the size
  \<open>S\<close> after normalization, \<open>S < 2 ^ 31\<close>, returns and resizes the array part to 1
  when \<open>S = 0\<close> and to \<open>2 * S\<close> otherwise, and every slot below \<open>S\<close> keeps its
  value. For every table the size changes exactly when the index equals it. Appends
  at the indices 0, 1, 2, 3, 4 from size 0 give the sizes 0, 1, 2, 4, 4, 8 with all
  five values kept (\<open>five_appends\<close> above).
\<close>

lemma append_rule_below_overflow:
  assumes "unat ui = unat (sizearray (luaH_titan_normalize_table t))"
    and "unat (sizearray (luaH_titan_normalize_table t)) < 2 ^ 31"
  shows "titan_runtime_array_out_of_bounds_write h t ui line col =
           (Returns, luaH_resizearray h (luaH_titan_normalize_table t)
                       (if sizearray (luaH_titan_normalize_table t) = 0 then 1
                        else 2 * sizearray (luaH_titan_normalize_table t)))"
    and "unat (sizearray (snd (titan_runtime_array_out_of_bounds_write h t ui line col))) =
           (if unat (sizearray (luaH_titan_normalize_table t)) = 0 then 1
            else 2 * unat (sizearray (luaH_titan_normalize_table t)))"
    and "\<forall>i < unat (sizearray (luaH_titan_normalize_table t)).
           array (snd (titan_runtime_array_out_of_bounds_write h t ui line col)) i =
             array (luaH_titan_normalize_table t) i"
  using assms
  by (simp_all add: write_check_unfold resizearray_fields unat_double_small unat_eq_0)

lemma growth_exactly_at_size:
  "(sizearray (snd (titan_runtime_array_out_of_bounds_write h t ui line col))
      \<noteq> sizearray (luaH_titan_normalize_table t))
   = (unat ui = unat (sizearray (luaH_titan_normalize_table t)))"
  by (simp add: write_check_unfold resizearray_fields double_asize_neq)

text \<open>
  C1. The claim holds for every size below \<open>2 ^ 31\<close> (the two lemmas above and
  \<open>five_appends\<close>), and the code departs from it at size \<open>2 ^ 31\<close>, a size the
  doubling itself reaches from \<open>2 ^ 30\<close>. There \<^verbatim>\<open>2*asize\<close> overflows the
  \<^verbatim>\<open>unsigned int\<close>: the write check at index \<open>2 ^ 31\<close> returns, the size it asks the
  resize for is 0 and not \<open>2 * 2 ^ 31\<close>, and afterwards index 0 is outside the array
  part: a read check on it raises. The code doubles and has no guard for the product.
\<close>

theorem append_doubling_overflow:
  "sizearray (snd (titan_runtime_array_out_of_bounds_write lua_host
                     (table_big\<lparr>sizearray := 2 ^ 30\<rparr>) (2 ^ 30) 7 9)) = sizearray table_big
   \<and> unat (2 ^ 31 :: 64 word) = unat (sizearray (luaH_titan_normalize_table table_big))
   \<and> unat (sizearray (luaH_titan_normalize_table table_big)) = 2147483648
   \<and> fst (titan_runtime_array_out_of_bounds_write lua_host table_big (2 ^ 31) 7 9) = Returns
   \<and> unat (sizearray (snd (titan_runtime_array_out_of_bounds_write lua_host table_big (2 ^ 31) 7 9))) = 0
   \<and> unat (sizearray (snd (titan_runtime_array_out_of_bounds_write lua_host table_big (2 ^ 31) 7 9)))
       \<noteq> 2 * unat (sizearray (luaH_titan_normalize_table table_big))
   \<and> fst (titan_runtime_array_out_of_bounds_read lua_host
            (snd (titan_runtime_array_out_of_bounds_write lua_host table_big (2 ^ 31) 7 9)) 0 7 9)
       = Raises ''out of bounds (outside array part) at line 7, col 9''"
proof -
  let ?W = "titan_runtime_array_out_of_bounds_write lua_host table_big (2 ^ 31) 7 9"
  have n: "luaH_titan_normalize_table table_big = table_big"
    by (simp add: normalize_empty_hash table_big_def)
  have s: "sizearray table_big = 2 ^ 31" by (simp add: table_big_def)
  have e: "node table_big = []" by (simp add: table_big_def)
  have n30: "luaH_titan_normalize_table (table_big\<lparr>sizearray := 2 ^ 30\<rparr>)
             = table_big\<lparr>sizearray := 2 ^ 30\<rparr>"
    by (simp add: normalize_empty_hash e)
  have d: "sizearray (snd (titan_runtime_array_out_of_bounds_write lua_host
                     (table_big\<lparr>sizearray := 2 ^ 30\<rparr>) (2 ^ 30) 7 9)) = sizearray table_big"
    using n30 by (simp add: write_check_unfold s resizearray_fields)
  have r: "fst ?W = Returns"
    by (simp add: write_check_unfold n s)
  have c: "sizearray (snd ?W) = 0"
    by (simp add: write_check_unfold n s resizearray_fields)
  have nd: "node (snd ?W) = []"
    by (simp add: write_check_unfold n s resizearray_fields e)
  have nw: "luaH_titan_normalize_table (snd ?W) = snd ?W"
    using nd by (rule normalize_empty_hash)
  have rd: "fst (titan_runtime_array_out_of_bounds_read lua_host (snd ?W) 0 7 9)
       = Raises ''out of bounds (outside array part) at line 7, col 9''"
    using nw c by (simp add: read_check_unfold array_bounds_error_message show_int_digits)
  show ?thesis
    using d r c rd by (simp add: n s)
qed

text \<open>
  C3, as the specification states it, fails: a write check at index 2 on a table of
  size 2 returns and leaves size 4, not 3, and index 3 is then inside the array part
  for both checks although nothing was written there. The C code has one size field;
  the size the checks read is the size the resize sets.
\<close>

theorem growth_bookkeeping_counterexample:
  "unat (2 :: 64 word) = unat (sizearray (luaH_titan_normalize_table table2))
   \<and> fst (titan_runtime_array_out_of_bounds_write lua_host table2 2 7 9) = Returns
   \<and> unat (sizearray (luaH_titan_normalize_table table2)) = 2
   \<and> unat (sizearray (snd (titan_runtime_array_out_of_bounds_write lua_host table2 2 7 9))) = 4
   \<and> unat (sizearray (snd (titan_runtime_array_out_of_bounds_write lua_host table2 2 7 9)))
       \<noteq> unat (sizearray (luaH_titan_normalize_table table2)) + 1
   \<and> fst (titan_runtime_array_out_of_bounds_read lua_host
            (snd (titan_runtime_array_out_of_bounds_write lua_host table2 2 7 9)) 3 7 9) = Returns
   \<and> titan_runtime_array_out_of_bounds_write lua_host
        (snd (titan_runtime_array_out_of_bounds_write lua_host table2 2 7 9)) 3 7 9
       = (Returns, snd (titan_runtime_array_out_of_bounds_write lua_host table2 2 7 9))"
proof -
  have n: "luaH_titan_normalize_table table2 = table2"
    by (simp add: normalize_empty_hash table2_def)
  have s: "sizearray table2 = 2" by (simp add: table2_def)
  have e: "node table2 = []" by (simp add: table2_def)
  have w: "titan_runtime_array_out_of_bounds_write lua_host table2 2 7 9
           = (Returns, luaH_resizearray lua_host table2 4)"
    by (simp add: write_check_unfold n s)
  have n4: "luaH_titan_normalize_table (luaH_resizearray lua_host table2 4)
            = luaH_resizearray lua_host table2 4"
    by (simp add: normalize_empty_hash resizearray_fields e)
  show ?thesis
    by (simp add: w n s read_check_unfold write_check_unfold n4 resizearray_fields)
qed

text \<open>
  C3, amended. For a write check at the index equal to the size \<open>S\<close> after
  normalization, \<open>S < 2 ^ 31\<close>: the check returns; every slot below \<open>S\<close> keeps its
  value and the hash part is untouched; the size becomes \<open>max 1 (2 * S)\<close>; the new
  slots, from \<open>S\<close> up to the new size, are empty, and every index below the new size
  (not only \<open>S\<close>) passes the read check and the write check afterwards. The size
  advances by exactly one only when \<open>S \<le> 1\<close>.
\<close>

theorem growth_bookkeeping:
  assumes "unat ui = unat (sizearray (luaH_titan_normalize_table t))"
    and "unat (sizearray (luaH_titan_normalize_table t)) < 2 ^ 31"
  shows "fst (titan_runtime_array_out_of_bounds_write h t ui line col) = Returns
       \<and> (\<forall>i < unat (sizearray (luaH_titan_normalize_table t)).
             array (snd (titan_runtime_array_out_of_bounds_write h t ui line col)) i =
               array (luaH_titan_normalize_table t) i)
       \<and> node (snd (titan_runtime_array_out_of_bounds_write h t ui line col)) =
           node (luaH_titan_normalize_table t)
       \<and> unat (sizearray (snd (titan_runtime_array_out_of_bounds_write h t ui line col))) =
           max 1 (2 * unat (sizearray (luaH_titan_normalize_table t)))
       \<and> (\<forall>j. unat (sizearray (luaH_titan_normalize_table t)) \<le> j
               \<and> j < max 1 (2 * unat (sizearray (luaH_titan_normalize_table t))) \<longrightarrow>
             array (snd (titan_runtime_array_out_of_bounds_write h t ui line col)) j = emptyslot h)
       \<and> (\<forall>uj. unat uj < max 1 (2 * unat (sizearray (luaH_titan_normalize_table t))) \<longrightarrow>
             fst (titan_runtime_array_out_of_bounds_read h
                    (snd (titan_runtime_array_out_of_bounds_write h t ui line col)) uj line col)
               = Returns
           \<and> fst (titan_runtime_array_out_of_bounds_write h
                    (snd (titan_runtime_array_out_of_bounds_write h t ui line col)) uj line col)
               = Returns)
       \<and> ((unat (sizearray (snd (titan_runtime_array_out_of_bounds_write h t ui line col))) =
             unat (sizearray (luaH_titan_normalize_table t)) + 1)
           = (unat (sizearray (luaH_titan_normalize_table t)) \<le> 1))"
proof -
  let ?tn = "luaH_titan_normalize_table t"
  let ?S = "sizearray ?tn"
  let ?n = "if ?S = 0 then 1 else 2 * ?S"
  let ?W = "titan_runtime_array_out_of_bounds_write h t ui line col"
  have w: "?W = (Returns, luaH_resizearray h ?tn ?n)"
    using assms(1) by (simp add: write_check_unfold)
  have sz: "unat (sizearray (snd ?W)) = max 1 (2 * unat ?S)"
  proof (cases "?S = 0")
    case True
    then show ?thesis by (simp add: w resizearray_fields)
  next
    case False
    then have "0 < unat ?S" by (simp add: unat_gt_0)
    then have "max 1 (2 * unat ?S) = 2 * unat ?S" by simp
    with False assms(2) show ?thesis
      by (simp add: w resizearray_fields unat_double_small)
  qed
  have a: "fst ?W = Returns" by (simp add: w)
  have b: "\<forall>i < unat ?S. array (snd ?W) i = array ?tn i"
    by (simp add: w resizearray_fields)
  have c: "node (snd ?W) = node ?tn"
    by (simp add: w resizearray_fields)
  have d: "\<forall>j. unat ?S \<le> j \<and> j < max 1 (2 * unat ?S) \<longrightarrow> array (snd ?W) j = emptyslot h"
    by (simp add: w resizearray_fields)
  have e: "\<forall>uj. unat uj < max 1 (2 * unat ?S) \<longrightarrow>
             fst (titan_runtime_array_out_of_bounds_read h (snd ?W) uj line col) = Returns
           \<and> fst (titan_runtime_array_out_of_bounds_write h (snd ?W) uj line col) = Returns"
    using sz read_after_normalize_mono [of _ "snd ?W" h line col]
      write_after_normalize_mono [of _ "snd ?W" h line col]
    by metis
  have f: "(unat (sizearray (snd ?W)) = unat ?S + 1) = (unat ?S \<le> 1)"
    unfolding sz by (simp add: max_def)
  from a b c sz d e f show ?thesis by blast
qed

text \<open>The theorem at the table of two integers and index 2.\<close>

theorem growth_bookkeeping_witness:
  "unat (2 :: 64 word) = unat (sizearray (luaH_titan_normalize_table table2))
   \<and> unat (sizearray (luaH_titan_normalize_table table2)) < 2 ^ 31
   \<and> fst (titan_runtime_array_out_of_bounds_write lua_host table2 2 7 9) = Returns
   \<and> array (snd (titan_runtime_array_out_of_bounds_write lua_host table2 2 7 9)) 0 = int_value 10
   \<and> array (snd (titan_runtime_array_out_of_bounds_write lua_host table2 2 7 9)) 1 = int_value 11
   \<and> node (snd (titan_runtime_array_out_of_bounds_write lua_host table2 2 7 9)) = []
   \<and> unat (sizearray (snd (titan_runtime_array_out_of_bounds_write lua_host table2 2 7 9))) = 4
   \<and> array (snd (titan_runtime_array_out_of_bounds_write lua_host table2 2 7 9)) 2 = emptyslot lua_host
   \<and> array (snd (titan_runtime_array_out_of_bounds_write lua_host table2 2 7 9)) 3 = emptyslot lua_host
   \<and> fst (titan_runtime_array_out_of_bounds_read lua_host
            (snd (titan_runtime_array_out_of_bounds_write lua_host table2 2 7 9)) 3 7 9) = Returns
   \<and> fst (titan_runtime_array_out_of_bounds_write lua_host
            (snd (titan_runtime_array_out_of_bounds_write lua_host table2 2 7 9)) 3 7 9) = Returns"
proof -
  let ?W = "titan_runtime_array_out_of_bounds_write lua_host table2 2 7 9"
  let ?S = "sizearray (luaH_titan_normalize_table table2)"
  have n: "luaH_titan_normalize_table table2 = table2"
    by (simp add: normalize_empty_hash table2_def)
  have s: "sizearray table2 = 2" by (simp add: table2_def)
  have h1: "unat (2 :: 64 word) = unat ?S" by (simp add: n s)
  have h2: "unat ?S < 2 ^ 31" by (simp add: n s)
  have i0: "(0::nat) < unat ?S" and i1: "(1::nat) < unat ?S" by (simp_all add: n s)
  have j2: "unat ?S \<le> 2 \<and> 2 < max 1 (2 * unat ?S)"
    and j3: "unat ?S \<le> 3 \<and> 3 < max 1 (2 * unat ?S)" by (simp_all add: n s)
  have u3: "unat (3 :: 64 word) < max 1 (2 * unat ?S)" by (simp add: n s)
  note g = growth_bookkeeping [OF h1 h2, of lua_host 7 9]
  from g have r: "fst ?W = Returns" by blast
  from g i0 have "array (snd ?W) 0 = array (luaH_titan_normalize_table table2) 0" by blast
  then have a0: "array (snd ?W) 0 = int_value 10" by (simp add: n) (simp add: table2_def)
  from g i1 have "array (snd ?W) 1 = array (luaH_titan_normalize_table table2) 1" by blast
  then have a1: "array (snd ?W) 1 = int_value 11" by (simp add: n) (simp add: table2_def)
  from g have "node (snd ?W) = node (luaH_titan_normalize_table table2)" by blast
  then have nd: "node (snd ?W) = []" by (simp add: n) (simp add: table2_def)
  from g have "unat (sizearray (snd ?W)) = max 1 (2 * unat ?S)" by blast
  then have c: "unat (sizearray (snd ?W)) = 4" by (simp add: n s)
  from g j2 have e2: "array (snd ?W) 2 = emptyslot lua_host" by blast
  from g j3 have e3: "array (snd ?W) 3 = emptyslot lua_host" by blast
  from g u3 have rd: "fst (titan_runtime_array_out_of_bounds_read lua_host (snd ?W) 3 7 9) = Returns"
    by blast
  from g u3 have wr: "fst (titan_runtime_array_out_of_bounds_write lua_host (snd ?W) 3 7 9) = Returns"
    by blast
  from h1 h2 r a0 a1 nd c e2 e3 rd wr show ?thesis by blast
qed

text \<open>
  C4, as the specification states it, fails: on the table of three integers, of size 3,
  the write check at index 3 returns and the size becomes 6, not 4; so it does when the
  value then stored is a float.
\<close>

theorem size3_append_counterexample:
  "luaH_titan_normalize_table table3 = table3
   \<and> sizearray table3 = 3
   \<and> map (\<lambda>i. tt (array table3 i)) [0, 1, 2] = [LUA_TNUMINT lua_host, LUA_TNUMINT lua_host, LUA_TNUMINT lua_host]
   \<and> fst (titan_runtime_array_out_of_bounds_write lua_host table3 3 7 9) = Returns
   \<and> sizearray (snd (titan_runtime_array_out_of_bounds_write lua_host table3 3 7 9)) = 6
   \<and> sizearray (snd (titan_runtime_array_out_of_bounds_write lua_host table3 3 7 9)) \<noteq> 4
   \<and> fst (guarded_store lua_host table3 3 (float_value 1) 7 9) = Returns
   \<and> sizearray (snd (guarded_store lua_host table3 3 (float_value 1) 7 9)) = 6"
proof -
  have n: "luaH_titan_normalize_table table3 = table3"
    by (simp add: normalize_empty_hash table3_def)
  have s: "sizearray table3 = 3" by (simp add: table3_def)
  have e: "node table3 = []" by (simp add: table3_def)
  have tg: "map (\<lambda>i. tt (array table3 i)) [0, 1, 2]
            = [LUA_TNUMINT lua_host, LUA_TNUMINT lua_host, LUA_TNUMINT lua_host]"
    by (simp add: table3_def int_value_def lua_host_def)
  have w: "titan_runtime_array_out_of_bounds_write lua_host table3 3 7 9
           = (Returns, luaH_resizearray lua_host table3 6)"
    by (simp add: write_check_unfold n s)
  have g: "fst (guarded_store lua_host table3 3 (float_value 1) 7 9) = Returns"
    "sizearray (snd (guarded_store lua_host table3 3 (float_value 1) 7 9)) = 6"
    by (simp_all add: guarded_store_empty_hash e s resizearray_fields)
  show ?thesis
    using n s tg g by (simp add: w resizearray_fields)
qed

text \<open>
  C4, amended. On a normalized table of size 3 the write check at index 3 returns and
  resizes the array part to 6, twice the size; the three slots keep their values and
  the hash part is untouched. The growth is triggered by the index being equal to the
  size: a write check at an index below 3 returns and changes nothing. The resize
  happens inside the check, before the caller stores the value.
\<close>

theorem size3_append:
  assumes "luaH_titan_normalize_table t = t" and "sizearray t = 3"
  shows "titan_runtime_array_out_of_bounds_write h t 3 line col
           = (Returns, luaH_resizearray h t 6)
       \<and> sizearray (snd (titan_runtime_array_out_of_bounds_write h t 3 line col)) = 6
       \<and> (\<forall>i < 3. array (snd (titan_runtime_array_out_of_bounds_write h t 3 line col)) i
                     = array t i)
       \<and> node (snd (titan_runtime_array_out_of_bounds_write h t 3 line col)) = node t
       \<and> (\<forall>uj. unat uj < 3 \<longrightarrow>
             titan_runtime_array_out_of_bounds_write h t uj line col = (Returns, t))"
  using assms by (simp add: write_check_unfold resizearray_fields)

text \<open>The theorem at the table of three integers.\<close>

theorem size3_append_witness:
  "luaH_titan_normalize_table table3 = table3
   \<and> sizearray table3 = 3
   \<and> titan_runtime_array_out_of_bounds_write lua_host table3 3 7 9
       = (Returns, luaH_resizearray lua_host table3 6)
   \<and> array (snd (titan_runtime_array_out_of_bounds_write lua_host table3 3 7 9)) 2 = int_value 12
   \<and> titan_runtime_array_out_of_bounds_write lua_host table3 2 7 9 = (Returns, table3)"
proof -
  have n: "luaH_titan_normalize_table table3 = table3"
    by (simp add: normalize_empty_hash table3_def)
  have s: "sizearray table3 = 3" by (simp add: table3_def)
  have i2: "(2::nat) < 3" by simp
  have u2: "unat (2 :: 64 word) < 3" by simp
  note g = size3_append [OF n s, of lua_host 7 9]
  from g have w: "titan_runtime_array_out_of_bounds_write lua_host table3 3 7 9
       = (Returns, luaH_resizearray lua_host table3 6)" by blast
  from g i2 have "array (snd (titan_runtime_array_out_of_bounds_write lua_host table3 3 7 9)) 2
      = array table3 2" by blast
  then have a2: "array (snd (titan_runtime_array_out_of_bounds_write lua_host table3 3 7 9)) 2 = int_value 12"
    by (simp add: table3_def)
  from g u2 have w2: "titan_runtime_array_out_of_bounds_write lua_host table3 2 7 9 = (Returns, table3)"
    by blast
  from n s w a2 w2 show ?thesis by blast
qed

text \<open>
  C5, as the specification states it, fails: with a present slot whose tag equals the
  expected tag (an integer where an integer is expected) the function does not return;
  it raises the element type error with the same name twice.
\<close>

theorem array_type_error_counterexample:
  "\<not> isempty lua_host (int_value 5)
   \<and> rawtt (int_value 5) = LUA_TNUMINT lua_host
   \<and> titan_runtime_array_type_error lua_host 12 (LUA_TNUMINT lua_host) (int_value 5)
       = Raises ''wrong type for array element at line 12, expected integer but found integer''
   \<and> titan_runtime_array_type_error lua_host 12 (LUA_TNUMINT lua_host) (int_value 5) \<noteq> Returns"
proof -
  have e: "\<not> isempty lua_host (int_value 5)"
    by (simp add: lua_host_def int_value_def)
  have t: "rawtt (int_value 5) = LUA_TNUMINT lua_host"
    by (simp add: lua_host_def int_value_def rawtt_def)
  have n: "titan_tag_name lua_host (LUA_TNUMINT lua_host) = ''integer''"
    by (simp add: titan_tag_name_def)
  show ?thesis
    using e t by (simp add: array_type_error_message n show_int_digits)
qed

text \<open>
  C5, amended. \<^verbatim>\<open>titan_runtime_array_type_error\<close> never returns (it is declared
  \<^verbatim>\<open>TITAN_NORETURN\<close>) and compares no tags; the comparison is the caller's. On an
  empty slot it raises the "inside array part" violation, whatever the expected tag.
  On a present slot it raises the element type mismatch, naming the expected and the
  actual type through \<open>titan_tag_name\<close> in the same words as the argument and the
  return type errors do.
\<close>

theorem array_type_error_always_raises:
  "titan_runtime_array_type_error h line expected_tag slot =
     Raises (if isempty h slot
             then ''out of bounds (inside array part) at line '' @ show_int line
             else ''wrong type for array element at line '' @ show_int line
                  @ '', expected '' @ titan_tag_name h expected_tag
                  @ '' but found '' @ titan_tag_name h (rawtt slot))
   \<and> titan_runtime_array_type_error h line expected_tag slot \<noteq> Returns
   \<and> titan_runtime_argument_type_error h param_name line expected_tag slot =
       Raises (''wrong type for argument '' @ param_name @ '' at line '' @ show_int line
               @ '', expected '' @ titan_tag_name h expected_tag
               @ '' but found '' @ titan_tag_name h (rawtt slot))
   \<and> titan_runtime_function_return_error h line expected_tag slot =
       Raises (''wrong type for function result at line '' @ show_int line
               @ '', expected '' @ titan_tag_name h expected_tag
               @ '' but found '' @ titan_tag_name h (rawtt slot))"
proof -
  have "titan_runtime_array_type_error h line expected_tag slot =
     Raises (if isempty h slot
             then ''out of bounds (inside array part) at line '' @ show_int line
             else ''wrong type for array element at line '' @ show_int line
                  @ '', expected '' @ titan_tag_name h expected_tag
                  @ '' but found '' @ titan_tag_name h (rawtt slot))"
    by (simp add: array_hole_error_message array_type_error_message)
  then show ?thesis
    using argument_type_error_message function_return_error_message by simp
qed

end
